theory Spec2Isabelle
  imports Complex_Main
begin

section \<open>Data model of backend/server.py\<close>

text \<open>
  The pydantic models and the MongoDB documents of the portal. Python floats are read as
  real numbers, strings as \<open>string\<close>, \<open>Optional[T]\<close> as \<open>T option\<close>. Record fields carry
  a prefix naming their model (\<open>c_\<close> ChildPart, \<open>p_\<close> ParentPart, \<open>d_\<close> Document, \<open>a_\<close>
  AuditLog, \<open>u_\<close> the current user), since Isabelle record fields share one name space.
  A collection is the list of its documents in insertion order; \<open>find_one\<close> returns the
  first match and \<open>update_one\<close> rewrites the first match.
\<close>

datatype jvalue = JNull | JStr string | JNum real | JBool bool

record field_change =
  fc_field :: string
  fc_old :: "jvalue option"
  fc_new :: "jvalue option"

record ChildPart =
  c_id :: string
  c_identifier :: string
  c_name :: string
  c_description :: "string option"
  c_country_of_origin :: string
  c_weight_kg :: real
  c_weight_lbs :: "real option"
  c_value_usd :: real
  c_aluminum_content_percent :: real
  c_steel_content_percent :: real
  c_has_russian_content :: bool
  c_russian_content_percent :: real
  c_russian_content_description :: "string option"
  c_manufacturing_method :: "string option"
  c_document_ids :: "string list"
  c_is_complete :: bool
  c_created_at :: string
  c_updated_at :: string

record ParentPart =
  p_id :: string
  p_sku :: string
  p_name :: string
  p_description :: "string option"
  p_supplier_id :: string
  p_status :: string
  p_total_weight_kg :: real
  p_total_value_usd :: real
  p_country_of_origin :: "string option"
  p_child_parts :: "ChildPart list"
  p_document_ids :: "string list"
  p_created_at :: string
  p_updated_at :: string

record Document =
  d_id :: string
  d_supplier_id :: string
  d_original_name :: string
  d_stored_name :: string
  d_file_type :: string
  d_file_size :: nat
  d_file_path :: string
  d_parent_part_ids :: "string list"
  d_child_part_ids :: "string list"
  d_version :: int
  d_created_at :: string
  d_updated_at :: string

record AuditLog =
  a_id :: string
  a_user_id :: string
  a_user_email :: string
  a_action :: string
  a_entity_type :: string
  a_entity_id :: string
  a_field_changes :: "field_change list"
  a_timestamp :: string
  a_supplier_id :: "string option"

text \<open>The authenticated caller, as \<open>get_current_user\<close> hands it to every route.\<close>

record user =
  u_id :: string
  u_email :: string
  u_role :: string

text \<open>The three collections the routes below read and write.\<close>

record db =
  parent_parts :: "ParentPart list"
  documents :: "Document list"
  audit_logs :: "AuditLog list"

text \<open>
  What a request takes from outside the program: \<open>uuid4 k\<close> is the value of the \<open>k\<close>-th
  call of \<open>uuid.uuid4()\<close> during the request, \<open>now\<close> the clock reading (one reading stands
  for all \<open>datetime.now\<close> calls of a request), and \<open>float_str\<close> and \<open>str_num\<close> are Python's
  \<open>float(s)\<close> on a string (\<open>None\<close> where it raises ValueError) and \<open>str(x)\<close> on a number.
\<close>

record env =
  uuid4 :: "nat \<Rightarrow> string"
  now :: string
  float_str :: "string \<Rightarrow> real option"
  str_num :: "real \<Rightarrow> string"

datatype http_error = HTTPException (status_code: int) (detail: string)

section \<open>Collection primitives\<close>

definition find_one :: "('a \<Rightarrow> bool) \<Rightarrow> 'a list \<Rightarrow> 'a option" where
  "find_one q xs = List.find q xs"

fun update_one :: "('a \<Rightarrow> bool) \<Rightarrow> ('a \<Rightarrow> 'a) \<Rightarrow> 'a list \<Rightarrow> 'a list" where
  "update_one q f [] = []"
| "update_one q f (x # xs) = (if q x then f x # xs else x # update_one q f xs)"

definition insert_one :: "'a \<Rightarrow> 'a list \<Rightarrow> 'a list" where
  "insert_one x xs = xs @ [x]"

text \<open>The query \<open>{"id": part_id}\<close>, narrowed by \<open>supplier_id\<close> for a supplier.\<close>

definition by_id :: "string \<Rightarrow> ParentPart \<Rightarrow> bool" where
  "by_id part_id p = (p_id p = part_id)"

definition part_query :: "string \<Rightarrow> user \<Rightarrow> ParentPart \<Rightarrow> bool" where
  "part_query part_id current_user p =
     (if u_role current_user = ''supplier''
      then p_id p = part_id \<and> p_supplier_id p = u_id current_user
      else p_id p = part_id)"

text \<open>\<open>current_user['id'] if current_user['role'] == 'supplier' else None\<close>\<close>

definition audit_supplier :: "user \<Rightarrow> string option" where
  "audit_supplier current_user =
     (if u_role current_user = ''supplier'' then Some (u_id current_user) else None)"

definition create_audit_log ::
  "string \<Rightarrow> string \<Rightarrow> user \<Rightarrow> string \<Rightarrow> string \<Rightarrow> string \<Rightarrow> field_change list
     \<Rightarrow> string option \<Rightarrow> db \<Rightarrow> db" where
  "create_audit_log new_id ts current_user action entity_type entity_id field_changes supplier_id s =
     s\<lparr>audit_logs := insert_one
        \<lparr>a_id = new_id, a_user_id = u_id current_user, a_user_email = u_email current_user,
         a_action = action, a_entity_type = entity_type, a_entity_id = entity_id,
         a_field_changes = field_changes, a_timestamp = ts, a_supplier_id = supplier_id\<rparr>
        (audit_logs s)\<rparr>"

section \<open>Status rule engine\<close>

definition calculate_part_status :: "ParentPart \<Rightarrow> string" where
  "calculate_part_status parent_part =
     (let child_parts = p_child_parts parent_part in
      if child_parts = [] then ''incomplete''
      else
        let all_complete = list_all c_is_complete child_parts;
            child_weight_sum = sum_list (map c_weight_kg child_parts);
            parent_weight = p_total_weight_kg parent_part;
            weight_tolerance = 1 / 100
        in if parent_weight > 0
              \<and> \<bar>child_weight_sum - parent_weight\<bar> / parent_weight > weight_tolerance
           then ''needs_review''
           else if all_complete then ''completed''
           else ''incomplete'')"

text \<open>
  The three lines every mutating route ends with: read the part back by id, derive its
  status, store it. The read cannot miss, since the same filter matched just before.
\<close>

definition recalculate_status :: "string \<Rightarrow> db \<Rightarrow> db" where
  "recalculate_status part_id s =
     (case find_one (by_id part_id) (parent_parts s) of
        None \<Rightarrow> s
      | Some updated_part \<Rightarrow>
          s\<lparr>parent_parts :=
              update_one (by_id part_id)
                (\<lambda>p. p\<lparr>p_status := calculate_part_status updated_part\<rparr>) (parent_parts s)\<rparr>)"

section \<open>Parent part routes\<close>

definition get_part :: "string \<Rightarrow> user \<Rightarrow> db \<Rightarrow> (http_error + ParentPart) \<times> db" where
  "get_part part_id current_user s =
     (case find_one (part_query part_id current_user) (parent_parts s) of
        None \<Rightarrow> (Inl (HTTPException 404 ''Part not found''), s)
      | Some part \<Rightarrow> (Inr part, s))"

record ParentPartCreate =
  pc_sku :: string
  pc_name :: string
  pc_description :: "string option"
  pc_country_of_origin :: "string option"
  pc_total_weight_kg :: real
  pc_total_value_usd :: real

definition create_part ::
  "env \<Rightarrow> ParentPartCreate \<Rightarrow> user \<Rightarrow> db \<Rightarrow> (http_error + ParentPart) \<times> db" where
  "create_part e part_data current_user s =
     (case find_one (\<lambda>p. p_sku p = pc_sku part_data \<and> p_supplier_id p = u_id current_user)
             (parent_parts s) of
        Some existing \<Rightarrow> (Inl (HTTPException 400 ''SKU already exists for this supplier''), s)
      | None \<Rightarrow>
          let part = \<lparr>p_id = uuid4 e 0, p_sku = pc_sku part_data, p_name = pc_name part_data,
                      p_description = pc_description part_data,
                      p_supplier_id = u_id current_user, p_status = ''incomplete'',
                      p_total_weight_kg = pc_total_weight_kg part_data,
                      p_total_value_usd = pc_total_value_usd part_data,
                      p_country_of_origin = pc_country_of_origin part_data,
                      p_child_parts = [], p_document_ids = [],
                      p_created_at = now e, p_updated_at = now e\<rparr>;
              s1 = s\<lparr>parent_parts := insert_one part (parent_parts s)\<rparr>;
              s2 = create_audit_log (uuid4 e 1) (now e) current_user ''create'' ''parent_part''
                     (p_id part)
                     [\<lparr>fc_field = ''sku'', fc_old = None, fc_new = Some (JStr (p_sku part))\<rparr>]
                     (audit_supplier current_user) s1
          in (Inr part, s2))"

text \<open>
  A field of a partial-update payload: left out of the request, sent as \<open>null\<close>, or sent
  with a value. \<open>model_dump(exclude_unset=True)\<close> drops the first kind only.
\<close>

datatype 'a upd = Unset | Null | Given 'a

definition dump_field :: "string \<Rightarrow> ('a \<Rightarrow> jvalue) \<Rightarrow> 'a upd \<Rightarrow> (string \<times> jvalue) list" where
  "dump_field k conv u = (case u of Unset \<Rightarrow> [] | Null \<Rightarrow> [(k, JNull)] | Given v \<Rightarrow> [(k, conv v)])"

definition opt_str :: "string option \<Rightarrow> jvalue" where
  "opt_str x = (case x of None \<Rightarrow> JNull | Some v \<Rightarrow> JStr v)"

record ParentPartUpdate =
  pu_sku :: "string upd"
  pu_name :: "string upd"
  pu_description :: "string upd"
  pu_country_of_origin :: "string upd"
  pu_total_weight_kg :: "real upd"
  pu_total_value_usd :: "real upd"

text \<open>\<open>part_data.model_dump(exclude_unset=True).items()\<close>, in the order of the model's fields.\<close>

definition parent_update_items :: "ParentPartUpdate \<Rightarrow> (string \<times> jvalue) list" where
  "parent_update_items d =
     dump_field ''sku'' JStr (pu_sku d) @ dump_field ''name'' JStr (pu_name d)
     @ dump_field ''description'' JStr (pu_description d)
     @ dump_field ''country_of_origin'' JStr (pu_country_of_origin d)
     @ dump_field ''total_weight_kg'' JNum (pu_total_weight_kg d)
     @ dump_field ''total_value_usd'' JNum (pu_total_value_usd d)"

text \<open>\<open>part.get(field)\<close> for the fields an update payload can name.\<close>

definition parent_get :: "ParentPart \<Rightarrow> string \<Rightarrow> jvalue" where
  "parent_get p f =
     (if f = ''sku'' then JStr (p_sku p)
      else if f = ''name'' then JStr (p_name p)
      else if f = ''description'' then opt_str (p_description p)
      else if f = ''country_of_origin'' then opt_str (p_country_of_origin p)
      else if f = ''total_weight_kg'' then JNum (p_total_weight_kg p)
      else if f = ''total_value_usd'' then JNum (p_total_value_usd p)
      else JNull)"

text \<open>
  One key of a \<open>$set\<close> on a parent document. The payload models fix the type of every
  value, so the last branches are never taken.
\<close>

definition parent_set :: "string \<times> jvalue \<Rightarrow> ParentPart \<Rightarrow> ParentPart" where
  "parent_set kv p =
     (case kv of
        (f, JStr v) \<Rightarrow>
          if f = ''sku'' then p\<lparr>p_sku := v\<rparr>
          else if f = ''name'' then p\<lparr>p_name := v\<rparr>
          else if f = ''description'' then p\<lparr>p_description := Some v\<rparr>
          else if f = ''country_of_origin'' then p\<lparr>p_country_of_origin := Some v\<rparr>
          else p
      | (f, JNum v) \<Rightarrow>
          if f = ''total_weight_kg'' then p\<lparr>p_total_weight_kg := v\<rparr>
          else if f = ''total_value_usd'' then p\<lparr>p_total_value_usd := v\<rparr>
          else p
      | _ \<Rightarrow> p)"

text \<open>The loop of \<open>update_part\<close> and \<open>update_child_part\<close> that collects the changed fields.\<close>

definition changed_items :: "(string \<Rightarrow> jvalue) \<Rightarrow> (string \<times> jvalue) list \<Rightarrow> (string \<times> jvalue) list" where
  "changed_items stored items =
     filter (\<lambda>(field, value). value \<noteq> JNull \<and> stored field \<noteq> value) items"

definition changes_of :: "(string \<Rightarrow> jvalue) \<Rightarrow> (string \<times> jvalue) list \<Rightarrow> field_change list" where
  "changes_of stored updates =
     map (\<lambda>(field, value).
            \<lparr>fc_field = field, fc_old = Some (stored field), fc_new = Some value\<rparr>) updates"

definition update_part ::
  "env \<Rightarrow> string \<Rightarrow> ParentPartUpdate \<Rightarrow> user \<Rightarrow> db \<Rightarrow> (http_error + unit) \<times> db" where
  "update_part e part_id part_data current_user s =
     (case find_one (part_query part_id current_user) (parent_parts s) of
        None \<Rightarrow> (Inl (HTTPException 404 ''Part not found''), s)
      | Some part \<Rightarrow>
          let updates = changed_items (parent_get part) (parent_update_items part_data);
              changes = changes_of (parent_get part) updates
          in if updates \<noteq> [] then
               let s1 = s\<lparr>parent_parts :=
                          update_one (by_id part_id)
                            (\<lambda>p. (fold parent_set updates p)\<lparr>p_updated_at := now e\<rparr>)
                            (parent_parts s)\<rparr>;
                   s2 = recalculate_status part_id s1;
                   s3 = create_audit_log (uuid4 e 0) (now e) current_user ''update''
                          ''parent_part'' part_id changes (audit_supplier current_user) s2
               in (Inr (), s3)
             else (Inr (), s))"

section \<open>Child part routes\<close>

record ChildPartCreate =
  cc_identifier :: string
  cc_name :: string
  cc_description :: "string option"
  cc_country_of_origin :: string
  cc_weight_kg :: real
  cc_value_usd :: real
  cc_aluminum_content_percent :: real
  cc_steel_content_percent :: real
  cc_has_russian_content :: bool
  cc_russian_content_percent :: real
  cc_russian_content_description :: "string option"
  cc_manufacturing_method :: "string option"

definition add_child_part ::
  "env \<Rightarrow> string \<Rightarrow> ChildPartCreate \<Rightarrow> user \<Rightarrow> db \<Rightarrow> (http_error + ChildPart) \<times> db" where
  "add_child_part e part_id child_data current_user s =
     (case find_one (part_query part_id current_user) (parent_parts s) of
        None \<Rightarrow> (Inl (HTTPException 404 ''Parent part not found''), s)
      | Some part \<Rightarrow>
          let child =
                \<lparr>c_id = uuid4 e 0, c_identifier = cc_identifier child_data,
                 c_name = cc_name child_data, c_description = cc_description child_data,
                 c_country_of_origin = cc_country_of_origin child_data,
                 c_weight_kg = cc_weight_kg child_data,
                 c_weight_lbs = Some (cc_weight_kg child_data * 2.20462),
                 c_value_usd = cc_value_usd child_data,
                 c_aluminum_content_percent = cc_aluminum_content_percent child_data,
                 c_steel_content_percent = cc_steel_content_percent child_data,
                 c_has_russian_content = cc_has_russian_content child_data,
                 c_russian_content_percent = cc_russian_content_percent child_data,
                 c_russian_content_description = cc_russian_content_description child_data,
                 c_manufacturing_method = cc_manufacturing_method child_data,
                 c_document_ids = [],
                 c_is_complete =
                   (if cc_identifier child_data \<noteq> [] \<and> cc_name child_data \<noteq> []
                       \<and> cc_country_of_origin child_data \<noteq> []
                       \<and> cc_weight_kg child_data > 0 \<and> cc_value_usd child_data > 0
                    then True else False),
                 c_created_at = now e, c_updated_at = now e\<rparr>;
              s1 = s\<lparr>parent_parts :=
                     update_one (by_id part_id)
                       (\<lambda>p. p\<lparr>p_child_parts := p_child_parts p @ [child],
                               p_updated_at := now e\<rparr>)
                       (parent_parts s)\<rparr>;
              s2 = recalculate_status part_id s1;
              s3 = create_audit_log (uuid4 e 1) (now e) current_user ''create'' ''child_part''
                     (c_id child)
                     [\<lparr>fc_field = ''identifier'', fc_old = None,
                       fc_new = Some (JStr (c_identifier child))\<rparr>]
                     (audit_supplier current_user) s2
          in (Inr child, s3))"

record ChildPartUpdate =
  cu_identifier :: "string upd"
  cu_name :: "string upd"
  cu_description :: "string upd"
  cu_country_of_origin :: "string upd"
  cu_weight_kg :: "real upd"
  cu_value_usd :: "real upd"
  cu_aluminum_content_percent :: "real upd"
  cu_steel_content_percent :: "real upd"
  cu_has_russian_content :: "bool upd"
  cu_russian_content_percent :: "real upd"
  cu_russian_content_description :: "string upd"
  cu_manufacturing_method :: "string upd"

definition child_update_items :: "ChildPartUpdate \<Rightarrow> (string \<times> jvalue) list" where
  "child_update_items d =
     dump_field ''identifier'' JStr (cu_identifier d) @ dump_field ''name'' JStr (cu_name d)
     @ dump_field ''description'' JStr (cu_description d)
     @ dump_field ''country_of_origin'' JStr (cu_country_of_origin d)
     @ dump_field ''weight_kg'' JNum (cu_weight_kg d)
     @ dump_field ''value_usd'' JNum (cu_value_usd d)
     @ dump_field ''aluminum_content_percent'' JNum (cu_aluminum_content_percent d)
     @ dump_field ''steel_content_percent'' JNum (cu_steel_content_percent d)
     @ dump_field ''has_russian_content'' JBool (cu_has_russian_content d)
     @ dump_field ''russian_content_percent'' JNum (cu_russian_content_percent d)
     @ dump_field ''russian_content_description'' JStr (cu_russian_content_description d)
     @ dump_field ''manufacturing_method'' JStr (cu_manufacturing_method d)"

definition child_get :: "ChildPart \<Rightarrow> string \<Rightarrow> jvalue" where
  "child_get c f =
     (if f = ''identifier'' then JStr (c_identifier c)
      else if f = ''name'' then JStr (c_name c)
      else if f = ''description'' then opt_str (c_description c)
      else if f = ''country_of_origin'' then JStr (c_country_of_origin c)
      else if f = ''weight_kg'' then JNum (c_weight_kg c)
      else if f = ''value_usd'' then JNum (c_value_usd c)
      else if f = ''aluminum_content_percent'' then JNum (c_aluminum_content_percent c)
      else if f = ''steel_content_percent'' then JNum (c_steel_content_percent c)
      else if f = ''has_russian_content'' then JBool (c_has_russian_content c)
      else if f = ''russian_content_percent'' then JNum (c_russian_content_percent c)
      else if f = ''russian_content_description'' then opt_str (c_russian_content_description c)
      else if f = ''manufacturing_method'' then opt_str (c_manufacturing_method c)
      else JNull)"

text \<open>\<open>child_parts[child_index][field] = value\<close>\<close>

definition child_set :: "string \<times> jvalue \<Rightarrow> ChildPart \<Rightarrow> ChildPart" where
  "child_set kv c =
     (case kv of
        (f, JStr v) \<Rightarrow>
          if f = ''identifier'' then c\<lparr>c_identifier := v\<rparr>
          else if f = ''name'' then c\<lparr>c_name := v\<rparr>
          else if f = ''description'' then c\<lparr>c_description := Some v\<rparr>
          else if f = ''country_of_origin'' then c\<lparr>c_country_of_origin := v\<rparr>
          else if f = ''russian_content_description''
            then c\<lparr>c_russian_content_description := Some v\<rparr>
          else if f = ''manufacturing_method'' then c\<lparr>c_manufacturing_method := Some v\<rparr>
          else c
      | (f, JNum v) \<Rightarrow>
          if f = ''weight_kg'' then c\<lparr>c_weight_kg := v\<rparr>
          else if f = ''value_usd'' then c\<lparr>c_value_usd := v\<rparr>
          else if f = ''aluminum_content_percent'' then c\<lparr>c_aluminum_content_percent := v\<rparr>
          else if f = ''steel_content_percent'' then c\<lparr>c_steel_content_percent := v\<rparr>
          else if f = ''russian_content_percent'' then c\<lparr>c_russian_content_percent := v\<rparr>
          else c
      | (f, JBool v) \<Rightarrow>
          if f = ''has_russian_content'' then c\<lparr>c_has_russian_content := v\<rparr> else c
      | _ \<Rightarrow> c)"

text \<open>The \<open>for i, cp in enumerate(...)\<close> searches: the index of the first match.\<close>

fun first_index :: "('a \<Rightarrow> bool) \<Rightarrow> 'a list \<Rightarrow> nat option" where
  "first_index q [] = None"
| "first_index q (x # xs) =
     (if q x then Some 0 else map_option Suc (first_index q xs))"

text \<open>
  The completeness check that \<open>update_child_part\<close> and \<open>import_excel\<close> run on a stored
  child: \<open>all([identifier, name, country_of_origin, weight_kg > 0, value_usd > 0])\<close>.
\<close>

definition check_complete :: "ChildPart \<Rightarrow> bool" where
  "check_complete cp =
     (c_identifier cp \<noteq> [] \<and> c_name cp \<noteq> [] \<and> c_country_of_origin cp \<noteq> []
      \<and> c_weight_kg cp > 0 \<and> c_value_usd cp > 0)"

definition update_child_part ::
  "env \<Rightarrow> string \<Rightarrow> string \<Rightarrow> ChildPartUpdate \<Rightarrow> user \<Rightarrow> db \<Rightarrow> (http_error + unit) \<times> db" where
  "update_child_part e part_id child_id child_data current_user s =
     (case find_one (part_query part_id current_user) (parent_parts s) of
        None \<Rightarrow> (Inl (HTTPException 404 ''Parent part not found''), s)
      | Some part \<Rightarrow>
          let child_parts = p_child_parts part in
          (case first_index (\<lambda>cp. c_id cp = child_id) child_parts of
             None \<Rightarrow> (Inl (HTTPException 404 ''Child part not found''), s)
           | Some child_index \<Rightarrow>
               let old_child = child_parts ! child_index;
                   updates = changed_items (child_get old_child) (child_update_items child_data);
                   changes = changes_of (child_get old_child) updates
               in if changes \<noteq> [] then
                    let cp1 = fold child_set updates old_child;
                        cp2 = (if ''weight_kg'' \<in> set (map fc_field changes)
                               then cp1\<lparr>c_weight_lbs := Some (c_weight_kg cp1 * 2.20462)\<rparr>
                               else cp1);
                        cp3 = cp2\<lparr>c_updated_at := now e\<rparr>;
                        cp4 = cp3\<lparr>c_is_complete := check_complete cp3\<rparr>;
                        child_parts' = child_parts[child_index := cp4];
                        s1 = s\<lparr>parent_parts :=
                               update_one (by_id part_id)
                                 (\<lambda>p. p\<lparr>p_child_parts := child_parts', p_updated_at := now e\<rparr>)
                                 (parent_parts s)\<rparr>;
                        s2 = recalculate_status part_id s1;
                        s3 = create_audit_log (uuid4 e 0) (now e) current_user ''update''
                               ''child_part'' child_id changes (audit_supplier current_user) s2
                    in (Inr (), s3)
                  else (Inr (), s)))"

definition delete_child_part ::
  "env \<Rightarrow> string \<Rightarrow> string \<Rightarrow> user \<Rightarrow> db \<Rightarrow> (http_error + unit) \<times> db" where
  "delete_child_part e part_id child_id current_user s =
     (case find_one (part_query part_id current_user) (parent_parts s) of
        None \<Rightarrow> (Inl (HTTPException 404 ''Parent part not found''), s)
      | Some part \<Rightarrow>
          let child_parts = p_child_parts part;
              matching = filter (\<lambda>cp. c_id cp = child_id) child_parts;
              new_child_parts = filter (\<lambda>cp. c_id cp \<noteq> child_id) child_parts
          in if matching = [] then (Inl (HTTPException 404 ''Child part not found''), s)
             else
               let deleted_child = last matching;
                   s1 = s\<lparr>parent_parts :=
                          update_one (by_id part_id)
                            (\<lambda>p. p\<lparr>p_child_parts := new_child_parts, p_updated_at := now e\<rparr>)
                            (parent_parts s)\<rparr>;
                   s2 = recalculate_status part_id s1;
                   s3 = create_audit_log (uuid4 e 0) (now e) current_user ''delete''
                          ''child_part'' child_id
                          [\<lparr>fc_field = ''identifier'',
                            fc_old = Some (JStr (c_identifier deleted_child)), fc_new = None\<rparr>]
                          (audit_supplier current_user) s2
               in (Inr (), s3))"

definition duplicate_child_part ::
  "env \<Rightarrow> string \<Rightarrow> string \<Rightarrow> user \<Rightarrow> db \<Rightarrow> (http_error + ChildPart) \<times> db" where
  "duplicate_child_part e part_id child_id current_user s =
     (case find_one (part_query part_id current_user) (parent_parts s) of
        None \<Rightarrow> (Inl (HTTPException 404 ''Parent part not found''), s)
      | Some part \<Rightarrow>
          (case find_one (\<lambda>cp. c_id cp = child_id) (p_child_parts part) of
             None \<Rightarrow> (Inl (HTTPException 404 ''Child part not found''), s)
           | Some source_child \<Rightarrow>
               let new_child =
                     \<lparr>c_id = uuid4 e 0,
                      c_identifier = c_identifier source_child @ ''_copy'',
                      c_name = c_name source_child @ '' (Copy)'',
                      c_description = c_description source_child,
                      c_country_of_origin = c_country_of_origin source_child,
                      c_weight_kg = c_weight_kg source_child,
                      c_weight_lbs = Some (c_weight_kg source_child * 2.20462),
                      c_value_usd = c_value_usd source_child,
                      c_aluminum_content_percent = c_aluminum_content_percent source_child,
                      c_steel_content_percent = c_steel_content_percent source_child,
                      c_has_russian_content = c_has_russian_content source_child,
                      c_russian_content_percent = c_russian_content_percent source_child,
                      c_russian_content_description = c_russian_content_description source_child,
                      c_manufacturing_method = c_manufacturing_method source_child,
                      c_document_ids = [],
                      c_is_complete = False,
                      c_created_at = now e, c_updated_at = now e\<rparr>;
                   s1 = s\<lparr>parent_parts :=
                          update_one (by_id part_id)
                            (\<lambda>p. p\<lparr>p_child_parts := p_child_parts p @ [new_child],
                                    p_updated_at := now e\<rparr>)
                            (parent_parts s)\<rparr>;
                   s2 = recalculate_status part_id s1;
                   s3 = create_audit_log (uuid4 e 1) (now e) current_user ''create''
                          ''child_part'' (c_id new_child)
                          [\<lparr>fc_field = ''duplicated_from'', fc_old = Some (JStr child_id),
                            fc_new = Some (JStr (c_id new_child))\<rparr>]
                          (audit_supplier current_user) s2
               in (Inr new_child, s3)))"

section \<open>Document upload\<close>

text \<open>
  The uploaded file as the route reads it: its name, \<open>Path(filename).suffix\<close>, the content
  type sent with it and the length of its content. The two form fields arrive as the id
  lists \<open>json.loads\<close> made of them (empty lists where it failed).
\<close>

record upload_file =
  f_filename :: string
  f_suffix :: string
  f_content_type :: "string option"
  f_size :: nat

record upload_response =
  r_id :: string
  r_original_name :: string
  r_file_type :: string
  r_file_size :: nat
  r_duplicate_warning :: bool

text \<open>\<open>{"$addToSet": {"document_ids": doc.id}}\<close>\<close>

definition add_to_set :: "string \<Rightarrow> string list \<Rightarrow> string list" where
  "add_to_set x xs = (if x \<in> set xs then xs else xs @ [x])"

definition attach_document :: "string \<Rightarrow> string list \<Rightarrow> ChildPart \<Rightarrow> ChildPart" where
  "attach_document doc_id child_ids cp =
     (if c_id cp \<in> set child_ids \<and> doc_id \<notin> set (c_document_ids cp)
      then cp\<lparr>c_document_ids := c_document_ids cp @ [doc_id]\<rparr> else cp)"

definition attach_to_children :: "string \<Rightarrow> string list \<Rightarrow> ParentPart \<Rightarrow> ParentPart list \<Rightarrow> ParentPart list" where
  "attach_to_children doc_id child_ids part ps =
     (let child_parts = p_child_parts part;
          updated = list_ex (\<lambda>cp. c_id cp \<in> set child_ids \<and> doc_id \<notin> set (c_document_ids cp))
                      child_parts
      in if updated
         then update_one (by_id (p_id part))
                (\<lambda>p. p\<lparr>p_child_parts := map (attach_document doc_id child_ids) child_parts\<rparr>) ps
         else ps)"

definition upload_document ::
  "env \<Rightarrow> upload_file \<Rightarrow> string list \<Rightarrow> string list \<Rightarrow> user \<Rightarrow> db
     \<Rightarrow> (http_error + upload_response) \<times> db" where
  "upload_document e file parent_ids child_ids current_user s =
     (let existing = find_one (\<lambda>d. d_supplier_id d = u_id current_user
                                    \<and> d_original_name d = f_filename file) (documents s);
          stored_name = uuid4 e 0 @ f_suffix file;
          doc = \<lparr>d_id = uuid4 e 1, d_supplier_id = u_id current_user,
                 d_original_name = f_filename file, d_stored_name = stored_name,
                 d_file_type = (case f_content_type file of
                                  None \<Rightarrow> ''application/octet-stream''
                                | Some ct \<Rightarrow> if ct = [] then ''application/octet-stream'' else ct),
                 d_file_size = f_size file, d_file_path = ''uploads/'' @ stored_name,
                 d_parent_part_ids = parent_ids, d_child_part_ids = child_ids,
                 d_version = (case existing of None \<Rightarrow> 1 | Some ex \<Rightarrow> d_version ex + 1),
                 d_created_at = now e, d_updated_at = now e\<rparr>;
          s1 = s\<lparr>documents := insert_one doc (documents s)\<rparr>;
          s2 = (if parent_ids \<noteq> [] then
                  s1\<lparr>parent_parts :=
                       fold (\<lambda>pid. update_one (by_id pid)
                                      (\<lambda>p. p\<lparr>p_document_ids := add_to_set (d_id doc) (p_document_ids p)\<rparr>))
                            parent_ids (parent_parts s1)\<rparr>
                else s1);
          s3 = (if child_ids \<noteq> [] then
                  let parts = take 10000
                                (filter (\<lambda>p. p_supplier_id p = u_id current_user) (parent_parts s2))
                  in s2\<lparr>parent_parts :=
                          fold (attach_to_children (d_id doc) child_ids) parts (parent_parts s2)\<rparr>
                else s2);
          s4 = create_audit_log (uuid4 e 2) (now e) current_user ''create'' ''document''
                 (d_id doc)
                 [\<lparr>fc_field = ''filename'', fc_old = None, fc_new = Some (JStr (f_filename file))\<rparr>]
                 (audit_supplier current_user) s3
      in (Inr \<lparr>r_id = d_id doc, r_original_name = d_original_name doc,
                r_file_type = d_file_type doc, r_file_size = d_file_size doc,
                r_duplicate_warning = (existing \<noteq> None)\<rparr>, s4))"

section \<open>Spreadsheet import and export\<close>

text \<open>
  The table pandas hands to \<open>import_excel\<close> and receives from \<open>export_parts\<close>: the column
  names and, per row, the cells by column. A cell is empty (NaN), a number, a text, a
  truth value or a date (held as its \<open>str\<close>). A row lists the cells it was built from; a
  column the row does not list is an empty cell. Writing the table to an xlsx file and
  reading it back lies outside the program and is taken to return the same table.
\<close>

datatype cell = CNaN | CNum real | CStr string | CBool bool | CDate string

type_synonym row = "(string \<times> cell) list"

record dataframe =
  df_columns :: "string list"
  df_rows :: "row list"

datatype py_exception = ValueError | TypeError | AttributeError

text \<open>\<open>row.get(k)\<close>: \<open>None\<close> for a column the table does not have.\<close>

definition row_get :: "dataframe \<Rightarrow> row \<Rightarrow> string \<Rightarrow> cell option" where
  "row_get df r k =
     (if k \<in> set (df_columns df)
      then Some (case map_of r k of None \<Rightarrow> CNaN | Some c \<Rightarrow> c) else None)"

text \<open>\<open>row[k]\<close>, read only where \<open>row.get(k)\<close> was found not to be NaN.\<close>

definition cell_at :: "dataframe \<Rightarrow> row \<Rightarrow> string \<Rightarrow> cell" where
  "cell_at df r k = (case row_get df r k of None \<Rightarrow> CNaN | Some c \<Rightarrow> c)"

definition notna :: "cell option \<Rightarrow> bool" where
  "notna x = (case x of None \<Rightarrow> False | Some CNaN \<Rightarrow> False | Some _ \<Rightarrow> True)"

text \<open>
  \<open>float(x)\<close>, \<open>str(x)\<close> and \<open>bool(x)\<close> on a cell. \<open>float\<close> of a text is left to the
  environment, \<open>float\<close> of a date raises TypeError. The route calls \<open>float\<close> and \<open>bool\<close> behind
  a \<open>pd.notna\<close> test only, so their value on NaN is never used.
\<close>

definition py_float :: "env \<Rightarrow> cell \<Rightarrow> py_exception + real" where
  "py_float e c =
     (case c of
        CNum x \<Rightarrow> Inr x
      | CBool b \<Rightarrow> Inr (if b then 1 else 0)
      | CStr s \<Rightarrow> (case float_str e s of None \<Rightarrow> Inl ValueError | Some x \<Rightarrow> Inr x)
      | CDate d \<Rightarrow> Inl TypeError
      | CNaN \<Rightarrow> Inl ValueError)"

definition py_str :: "env \<Rightarrow> cell \<Rightarrow> string" where
  "py_str e c =
     (case c of
        CStr s \<Rightarrow> s
      | CNum x \<Rightarrow> str_num e x
      | CBool b \<Rightarrow> (if b then ''True'' else ''False'')
      | CDate d \<Rightarrow> d
      | CNaN \<Rightarrow> ''nan'')"

definition py_bool :: "cell \<Rightarrow> bool" where
  "py_bool c =
     (case c of
        CStr s \<Rightarrow> s \<noteq> []
      | CNum x \<Rightarrow> x \<noteq> 0
      | CBool b \<Rightarrow> b
      | CDate d \<Rightarrow> True
      | CNaN \<Rightarrow> True)"

text \<open>\<open>Series.unique()\<close>: the distinct values in the order of their first appearance.\<close>

definition df_unique :: "'a list \<Rightarrow> 'a list" where
  "df_unique xs = rev (remdups (rev xs))"

text \<open>\<open>str(n)\<close> of a count, for the summary text of the import's audit entry.\<close>

function str_nat :: "nat \<Rightarrow> string" where
  "str_nat n = (if n < 10 then [''0123456789'' ! n]
                else str_nat (n div 10) @ [''0123456789'' ! (n mod 10)])"
  by pat_completeness auto
termination
  by (relation "measure id") auto

declare str_nat.simps [simp del]

definition endswith :: "string \<Rightarrow> string \<Rightarrow> bool" where
  "endswith s suf = (length suf \<le> length s \<and> drop (length s - length suf) s = suf)"

record import_results =
  created_parents :: nat
  updated_parents :: nat
  created_children :: nat
  updated_children :: nat
  errors :: "(cell \<times> py_exception) list"

text \<open>
  What the import loop carries along: the database, the counters and the number of UUIDs
  drawn so far. An entry of \<open>errors\<close> holds the sku and the exception of the text
  \<open>"Error processing SKU {sku}: {e}"\<close>.
\<close>

record import_state =
  st_db :: db
  st_results :: import_results
  st_uuid :: nat

text \<open>
  The guarded assignments \<open>if pd.notna(row.get(col)): target[key] = conv(row[col])\<close>, one
  function per conversion, and their evaluation in source order: the first exception
  ends it, before anything is written.
\<close>

definition str_update :: "env \<Rightarrow> dataframe \<Rightarrow> row \<Rightarrow> string \<Rightarrow> string \<Rightarrow> py_exception + (string \<times> jvalue) list" where
  "str_update e df r col key =
     (if notna (row_get df r col) then Inr [(key, JStr (py_str e (cell_at df r col)))] else Inr [])"

definition float_update :: "env \<Rightarrow> dataframe \<Rightarrow> row \<Rightarrow> string \<Rightarrow> string \<Rightarrow> py_exception + (string \<times> jvalue) list" where
  "float_update e df r col key =
     (if notna (row_get df r col)
      then (case py_float e (cell_at df r col) of Inl ex \<Rightarrow> Inl ex | Inr x \<Rightarrow> Inr [(key, JNum x)])
      else Inr [])"

definition bool_update :: "dataframe \<Rightarrow> row \<Rightarrow> string \<Rightarrow> string \<Rightarrow> py_exception + (string \<times> jvalue) list" where
  "bool_update df r col key =
     (if notna (row_get df r col) then Inr [(key, JBool (py_bool (cell_at df r col)))] else Inr [])"

fun collect :: "(py_exception + 'a list) list \<Rightarrow> py_exception + 'a list" where
  "collect [] = Inr []"
| "collect (x # xs) =
     (case x of
        Inl ex \<Rightarrow> Inl ex
      | Inr u \<Rightarrow> (case collect xs of Inl ex \<Rightarrow> Inl ex | Inr us \<Rightarrow> Inr (u @ us)))"

text \<open>The conversions \<open>conv(row.get(col, d)) if pd.notna(row.get(col)) else d\<close> of the create branches.\<close>

definition opt_str_cell :: "env \<Rightarrow> dataframe \<Rightarrow> row \<Rightarrow> string \<Rightarrow> string option" where
  "opt_str_cell e df r col =
     (if notna (row_get df r col) then Some (py_str e (cell_at df r col)) else None)"

definition float_or_zero :: "env \<Rightarrow> dataframe \<Rightarrow> row \<Rightarrow> string \<Rightarrow> py_exception + real" where
  "float_or_zero e df r col =
     (if notna (row_get df r col) then py_float e (cell_at df r col) else Inr 0)"

definition import_parent_updates :: "env \<Rightarrow> dataframe \<Rightarrow> row \<Rightarrow> py_exception + (string \<times> jvalue) list" where
  "import_parent_updates e df first_row = collect
     [str_update e df first_row ''parent_name'' ''name'',
      str_update e df first_row ''parent_description'' ''description'',
      str_update e df first_row ''parent_country_of_origin'' ''country_of_origin'',
      float_update e df first_row ''parent_total_weight_kg'' ''total_weight_kg'',
      float_update e df first_row ''parent_total_value_usd'' ''total_value_usd'']"

definition import_child_updates :: "env \<Rightarrow> dataframe \<Rightarrow> row \<Rightarrow> py_exception + (string \<times> jvalue) list" where
  "import_child_updates e df r = collect
     [str_update e df r ''child_name'' ''name'',
      str_update e df r ''child_description'' ''description'',
      str_update e df r ''child_country_of_origin'' ''country_of_origin'',
      float_update e df r ''child_weight_kg'' ''weight_kg'',
      float_update e df r ''child_value_usd'' ''value_usd'',
      float_update e df r ''child_aluminum_percent'' ''aluminum_content_percent'',
      float_update e df r ''child_steel_percent'' ''steel_content_percent'',
      bool_update df r ''child_has_russian_content'' ''has_russian_content'',
      float_update e df r ''child_russian_percent'' ''russian_content_percent'',
      str_update e df r ''child_russian_description'' ''russian_content_description'',
      str_update e df r ''child_manufacturing_method'' ''manufacturing_method'']"

text \<open>
  The first half of the \<open>try\<close> block: update the caller's part with this sku, or create it.
  It yields the parent's id, or the exception a conversion raised (nothing is written
  before a conversion).
\<close>

definition import_parent ::
  "env \<Rightarrow> dataframe \<Rightarrow> user \<Rightarrow> cell \<Rightarrow> row \<Rightarrow> import_state \<Rightarrow> py_exception + (string \<times> import_state)" where
  "import_parent e df current_user parent_sku first_row st =
     (case find_one (\<lambda>p. p_sku p = py_str e parent_sku \<and> p_supplier_id p = u_id current_user)
             (parent_parts (st_db st)) of
        Some existing_parent \<Rightarrow>
          (case import_parent_updates e df first_row of
             Inl ex \<Rightarrow> Inl ex
           | Inr updates \<Rightarrow>
               if updates \<noteq> [] then
                 Inr (p_id existing_parent,
                      st\<lparr>st_db := (st_db st)\<lparr>parent_parts :=
                                    update_one (by_id (p_id existing_parent))
                                      (\<lambda>p. (fold parent_set updates p)\<lparr>p_updated_at := now e\<rparr>)
                                      (parent_parts (st_db st))\<rparr>,
                         st_results := (st_results st)\<lparr>updated_parents :=
                                          updated_parents (st_results st) + 1\<rparr>\<rparr>)
               else Inr (p_id existing_parent, st))
      | None \<Rightarrow>
          (case float_or_zero e df first_row ''parent_total_weight_kg'' of
             Inl ex \<Rightarrow> Inl ex
           | Inr w \<Rightarrow>
               (case float_or_zero e df first_row ''parent_total_value_usd'' of
                  Inl ex \<Rightarrow> Inl ex
                | Inr v \<Rightarrow>
                    let parent =
                          \<lparr>p_id = uuid4 e (st_uuid st), p_sku = py_str e parent_sku,
                           p_name = py_str e (case row_get df first_row ''parent_name'' of
                                                None \<Rightarrow> parent_sku | Some c \<Rightarrow> c),
                           p_description = opt_str_cell e df first_row ''parent_description'',
                           p_supplier_id = u_id current_user, p_status = ''incomplete'',
                           p_total_weight_kg = w, p_total_value_usd = v,
                           p_country_of_origin =
                             opt_str_cell e df first_row ''parent_country_of_origin'',
                           p_child_parts = [], p_document_ids = [],
                           p_created_at = now e, p_updated_at = now e\<rparr>
                    in Inr (p_id parent,
                            st\<lparr>st_db := (st_db st)\<lparr>parent_parts :=
                                          insert_one parent (parent_parts (st_db st))\<rparr>,
                               st_results := (st_results st)\<lparr>created_parents :=
                                                created_parents (st_results st) + 1\<rparr>,
                               st_uuid := st_uuid st + 1\<rparr>))))"

text \<open>
  One row of the child loop: skip a row without child identifier, else update the
  parent's first child with that identifier or append a new child.
\<close>

definition import_child ::
  "env \<Rightarrow> dataframe \<Rightarrow> string \<Rightarrow> row \<Rightarrow> import_state \<Rightarrow> py_exception + import_state" where
  "import_child e df parent_id r st =
     (if \<not> notna (row_get df r ''child_identifier'') then Inr st
      else
        let child_identifier = py_str e (cell_at df r ''child_identifier'') in
        (case find_one (by_id parent_id) (parent_parts (st_db st)) of
           None \<Rightarrow> Inl AttributeError
         | Some parent_doc \<Rightarrow>
             let child_parts = p_child_parts parent_doc in
             (case first_index (\<lambda>cp. c_identifier cp = child_identifier) child_parts of
                Some existing_child_index \<Rightarrow>
                  (case import_child_updates e df r of
                     Inl ex \<Rightarrow> Inl ex
                   | Inr updates \<Rightarrow>
                       let cp1 = fold child_set updates (child_parts ! existing_child_index);
                           cp2 = (if ''weight_kg'' \<in> set (map fst updates)
                                  then cp1\<lparr>c_weight_lbs := Some (c_weight_kg cp1 * 2.20462)\<rparr>
                                  else cp1);
                           cp3 = cp2\<lparr>c_updated_at := now e\<rparr>;
                           cp4 = cp3\<lparr>c_is_complete := check_complete cp3\<rparr>
                       in Inr (st\<lparr>st_db := (st_db st)\<lparr>parent_parts :=
                                   update_one (by_id parent_id)
                                     (\<lambda>p. p\<lparr>p_child_parts := child_parts[existing_child_index := cp4],
                                             p_updated_at := now e\<rparr>)
                                     (parent_parts (st_db st))\<rparr>,
                                  st_results := (st_results st)\<lparr>updated_children :=
                                                   updated_children (st_results st) + 1\<rparr>\<rparr>))
              | None \<Rightarrow>
                  (case float_or_zero e df r ''child_weight_kg'' of Inl ex \<Rightarrow> Inl ex | Inr w \<Rightarrow>
                  (case float_or_zero e df r ''child_value_usd'' of Inl ex \<Rightarrow> Inl ex | Inr v \<Rightarrow>
                  (case float_or_zero e df r ''child_aluminum_percent'' of Inl ex \<Rightarrow> Inl ex | Inr al \<Rightarrow>
                  (case float_or_zero e df r ''child_steel_percent'' of Inl ex \<Rightarrow> Inl ex | Inr steel \<Rightarrow>
                  (case float_or_zero e df r ''child_russian_percent'' of Inl ex \<Rightarrow> Inl ex | Inr ru \<Rightarrow>
                     let child0 =
                           \<lparr>c_id = uuid4 e (st_uuid st), c_identifier = child_identifier,
                            c_name = (if notna (row_get df r ''child_name'')
                                      then py_str e (cell_at df r ''child_name'')
                                      else child_identifier),
                            c_description = opt_str_cell e df r ''child_description'',
                            c_country_of_origin =
                              (if notna (row_get df r ''child_country_of_origin'')
                               then py_str e (cell_at df r ''child_country_of_origin'') else []),
                            c_weight_kg = w, c_weight_lbs = Some (w * 2.20462),
                            c_value_usd = v,
                            c_aluminum_content_percent = al, c_steel_content_percent = steel,
                            c_has_russian_content =
                              (if notna (row_get df r ''child_has_russian_content'')
                               then py_bool (cell_at df r ''child_has_russian_content'')
                               else False),
                            c_russian_content_percent = ru,
                            c_russian_content_description =
                              opt_str_cell e df r ''child_russian_description'',
                            c_manufacturing_method =
                              opt_str_cell e df r ''child_manufacturing_method'',
                            c_document_ids = [], c_is_complete = False,
                            c_created_at = now e, c_updated_at = now e\<rparr>;
                         child = child0\<lparr>c_is_complete := check_complete child0\<rparr>
                     in Inr (st\<lparr>st_db := (st_db st)\<lparr>parent_parts :=
                                   update_one (by_id parent_id)
                                     (\<lambda>p. p\<lparr>p_child_parts := p_child_parts p @ [child],
                                             p_updated_at := now e\<rparr>)
                                     (parent_parts (st_db st))\<rparr>,
                                st_results := (st_results st)\<lparr>created_children :=
                                                 created_children (st_results st) + 1\<rparr>,
                                st_uuid := st_uuid st + 1\<rparr>)))))))))"

text \<open>The child loop: the first exception ends it, what earlier rows wrote stays.\<close>

fun import_children ::
  "env \<Rightarrow> dataframe \<Rightarrow> string \<Rightarrow> row list \<Rightarrow> import_state \<Rightarrow> py_exception option \<times> import_state" where
  "import_children e df parent_id [] st = (None, st)"
| "import_children e df parent_id (r # rs) st =
     (case import_child e df parent_id r st of
        Inl ex \<Rightarrow> (Some ex, st)
      | Inr st' \<Rightarrow> import_children e df parent_id rs st')"

definition add_error :: "cell \<Rightarrow> py_exception \<Rightarrow> import_state \<Rightarrow> import_state" where
  "add_error parent_sku ex st =
     st\<lparr>st_results := (st_results st)\<lparr>errors := errors (st_results st) @ [(parent_sku, ex)]\<rparr>\<rparr>"

text \<open>
  The body of the loop over the skus: the \<open>try\<close> block with its \<open>except Exception\<close>, which
  records the error and goes on to the next sku. The status is derived as the last step
  of the \<open>try\<close> block.
\<close>

definition process_sku :: "env \<Rightarrow> dataframe \<Rightarrow> user \<Rightarrow> cell \<Rightarrow> import_state \<Rightarrow> import_state" where
  "process_sku e df current_user parent_sku st =
     (case filter (\<lambda>r. cell_at df r ''parent_sku'' = parent_sku) (df_rows df) of
        [] \<Rightarrow> st
      | first_row # rest \<Rightarrow>
          (case import_parent e df current_user parent_sku first_row st of
             Inl ex \<Rightarrow> add_error parent_sku ex st
           | Inr (parent_id, st1) \<Rightarrow>
               (case import_children e df parent_id (first_row # rest) st1 of
                  (Some ex, st2) \<Rightarrow> add_error parent_sku ex st2
                | (None, st2) \<Rightarrow>
                    (case find_one (by_id parent_id) (parent_parts (st_db st2)) of
                       None \<Rightarrow> add_error parent_sku AttributeError st2
                     | Some updated_parent \<Rightarrow>
                         st2\<lparr>st_db := (st_db st2)\<lparr>parent_parts :=
                               update_one (by_id parent_id)
                                 (\<lambda>p. p\<lparr>p_status := calculate_part_status updated_parent\<rparr>)
                                 (parent_parts (st_db st2))\<rparr>\<rparr>))))"

definition import_summary :: "import_results \<Rightarrow> string" where
  "import_summary results =
     ''Parents: '' @ str_nat (created_parents results) @ '' created, ''
     @ str_nat (updated_parents results) @ '' updated. Children: ''
     @ str_nat (created_children results) @ '' created, ''
     @ str_nat (updated_children results) @ '' updated.''"

definition import_excel ::
  "env \<Rightarrow> string \<Rightarrow> dataframe \<Rightarrow> user \<Rightarrow> db \<Rightarrow> (http_error + import_results) \<times> db" where
  "import_excel e filename df current_user s =
     (if \<not> (endswith filename ''.xlsx'' \<or> endswith filename ''.xls'')
      then (Inl (HTTPException 400 ''Please upload an Excel file''), s)
      else if ''parent_sku'' \<notin> set (df_columns df)
      then (Inl (HTTPException 400 ''Missing 'parent_sku' column''), s)
      else
        let st = fold (\<lambda>parent_sku st. if parent_sku = CNaN then st
                                        else process_sku e df current_user parent_sku st)
                   (df_unique (map (\<lambda>r. cell_at df r ''parent_sku'') (df_rows df)))
                   \<lparr>st_db = s,
                    st_results = \<lparr>created_parents = 0, updated_parents = 0,
                                  created_children = 0, updated_children = 0, errors = []\<rparr>,
                    st_uuid = 0\<rparr>;
            results = st_results st;
            s1 = create_audit_log (uuid4 e (st_uuid st + 1)) (now e) current_user ''import''
                   ''batch_import'' (uuid4 e (st_uuid st))
                   [\<lparr>fc_field = ''import_results'', fc_old = None,
                     fc_new = Some (JStr (import_summary results))\<rparr>]
                   (audit_supplier current_user) (st_db st)
        in (Inr results, s1))"

text \<open>
  \<open>export_parts\<close>: one row per parent and child, one parent-only row for a parent without
  children; the value is the table \<open>pd.DataFrame(rows)\<close> that is written to the file.
  \<open>None\<close> becomes an empty cell.
\<close>

definition opt_cell :: "string option \<Rightarrow> cell" where
  "opt_cell x = (case x of None \<Rightarrow> CNaN | Some v \<Rightarrow> CStr v)"

definition parent_cells :: "ParentPart \<Rightarrow> row" where
  "parent_cells part =
     [(''parent_sku'', CStr (p_sku part)),
      (''parent_name'', CStr (p_name part)),
      (''parent_description'', opt_cell (p_description part)),
      (''parent_country_of_origin'', opt_cell (p_country_of_origin part)),
      (''parent_total_weight_kg'', CNum (p_total_weight_kg part)),
      (''parent_total_value_usd'', CNum (p_total_value_usd part)),
      (''parent_status'', CStr (p_status part))]"

definition child_cells :: "ChildPart \<Rightarrow> row" where
  "child_cells child =
     [(''child_identifier'', CStr (c_identifier child)),
      (''child_name'', CStr (c_name child)),
      (''child_description'', opt_cell (c_description child)),
      (''child_country_of_origin'', CStr (c_country_of_origin child)),
      (''child_weight_kg'', CNum (c_weight_kg child)),
      (''child_weight_lbs'', (case c_weight_lbs child of None \<Rightarrow> CNaN | Some x \<Rightarrow> CNum x)),
      (''child_value_usd'', CNum (c_value_usd child)),
      (''child_aluminum_percent'', CNum (c_aluminum_content_percent child)),
      (''child_steel_percent'', CNum (c_steel_content_percent child)),
      (''child_has_russian_content'', CBool (c_has_russian_content child)),
      (''child_russian_percent'', CNum (c_russian_content_percent child)),
      (''child_russian_description'', opt_cell (c_russian_content_description child)),
      (''child_manufacturing_method'', opt_cell (c_manufacturing_method child)),
      (''child_is_complete'', CBool (c_is_complete child))]"

definition export_rows :: "ParentPart \<Rightarrow> row list" where
  "export_rows part =
     map (\<lambda>child. parent_cells part @ child_cells child) (p_child_parts part)
     @ (if p_child_parts part = [] then [parent_cells part] else [])"

definition export_parts :: "user \<Rightarrow> db \<Rightarrow> dataframe" where
  "export_parts current_user s =
     (let parts = take 10000
                    (filter (\<lambda>p. if u_role current_user = ''supplier''
                                  then p_supplier_id p = u_id current_user else True)
                       (parent_parts s));
          rows = concat (map export_rows parts)
      in \<lparr>df_columns = df_unique (concat (map (map fst) rows)), df_rows = rows\<rparr>)"

section \<open>State predicates the properties speak about\<close>

text \<open>Every child part stored in the database, parent by parent.\<close>

definition all_children :: "db \<Rightarrow> ChildPart list" where
  "all_children s = concat (map p_child_parts (parent_parts s))"

text \<open>The data model's invariant on a child: the flag says what the five fields say.\<close>

definition complete_consistent :: "ChildPart \<Rightarrow> bool" where
  "complete_consistent c =
     (c_is_complete c = (c_identifier c \<noteq> [] \<and> c_name c \<noteq> [] \<and> c_country_of_origin c \<noteq> []
                          \<and> c_weight_kg c > 0 \<and> c_value_usd c > 0))"

text \<open>No supplier owns two parent parts with the same sku.\<close>

definition sku_unique :: "db \<Rightarrow> bool" where
  "sku_unique s = distinct (map (\<lambda>p. (p_supplier_id p, p_sku p)) (parent_parts s))"

text \<open>Every parent's stored status is the status derived from it.\<close>

definition status_consistent :: "db \<Rightarrow> bool" where
  "status_consistent s = list_all (\<lambda>p. p_status p = calculate_part_status p) (parent_parts s)"

section \<open>Example data\<close>

text \<open>
  Concrete inputs at which the theorems below are evaluated. In \<open>ex_env\<close> no string parses
  as a number; it is only used at inputs whose numeric cells hold numbers or dates.
\<close>

definition ex_env :: env where
  "ex_env = \<lparr>uuid4 = (\<lambda>k. ''uuid-'' @ replicate k (CHR ''x'')), now = ''t0'',
             float_str = (\<lambda>s. None), str_num = (\<lambda>r. ''num'')\<rparr>"


definition ex_parent ::
  "string \<Rightarrow> string \<Rightarrow> string \<Rightarrow> real \<Rightarrow> string \<Rightarrow> ChildPart list \<Rightarrow> ParentPart" where
  "ex_parent pid sku owner w st cs =
     \<lparr>p_id = pid, p_sku = sku, p_name = ''Frame'', p_description = None,
      p_supplier_id = owner, p_status = st, p_total_weight_kg = w, p_total_value_usd = 100,
      p_country_of_origin = None, p_child_parts = cs, p_document_ids = [],
      p_created_at = ''t0'', p_updated_at = ''t0''\<rparr>"

definition ex_supplier :: user where
  "ex_supplier = \<lparr>u_id = ''s1'', u_email = ''s1@x'', u_role = ''supplier''\<rparr>"

definition ex_db :: "ParentPart list \<Rightarrow> db" where
  "ex_db ps = \<lparr>parent_parts = ps, documents = [], audit_logs = []\<rparr>"

definition ex_create :: "string \<Rightarrow> ParentPartCreate" where
  "ex_create sku = \<lparr>pc_sku = sku, pc_name = ''Frame'', pc_description = None,
                    pc_country_of_origin = None, pc_total_weight_kg = 10,
                    pc_total_value_usd = 100\<rparr>"

definition ex_env_at :: "nat \<Rightarrow> env" where
  "ex_env_at n = ex_env\<lparr>uuid4 := (\<lambda>k. uuid4 ex_env (k + 3 * n))\<rparr>"

definition ex_rename :: "string \<Rightarrow> ParentPartUpdate" where
  "ex_rename sku = \<lparr>pu_sku = Given sku, pu_name = Unset, pu_description = Unset,
                    pu_country_of_origin = Unset, pu_total_weight_kg = Unset,
                    pu_total_value_usd = Unset\<rparr>"


definition ex_two_parts :: db where
  "ex_two_parts = ex_db [ex_parent ''p1'' ''SKU-1'' ''s1'' 10 ''incomplete'' [],
                         ex_parent ''p2'' ''SKU-2'' ''s1'' 10 ''incomplete'' []]"

definition ex_file :: upload_file where
  "ex_file = \<lparr>f_filename = ''cert.pdf'', f_suffix = ''.pdf'',
              f_content_type = Some ''application/pdf'', f_size = 3\<rparr>"

text \<open>The \<open>n\<close>-th upload of \<open>ex_file\<close> by \<open>ex_supplier\<close>, bound to no part.\<close>

definition ex_upload :: "nat \<Rightarrow> db \<Rightarrow> db" where
  "ex_upload n s = snd (upload_document (ex_env_at n) ex_file [] [] ex_supplier s)"



definition ex_add_child :: ChildPartCreate where
  "ex_add_child = \<lparr>cc_identifier = ''B'', cc_name = ''Gusset'', cc_description = None,
                   cc_country_of_origin = ''USA'', cc_weight_kg = 0, cc_value_usd = 5,
                   cc_aluminum_content_percent = 0, cc_steel_content_percent = 0,
                   cc_has_russian_content = False, cc_russian_content_percent = 0,
                   cc_russian_content_description = None, cc_manufacturing_method = None\<rparr>"

section \<open>Properties\<close>

subsection \<open>Collection primitives\<close>

lemma find_one_None: "find_one q xs = None \<longleftrightarrow> (\<forall>x \<in> set xs. \<not> q x)"
  by (auto simp: find_one_def find_None_iff)

lemma find_one_Some: "find_one q xs = Some x \<Longrightarrow> x \<in> set xs \<and> q x"
  by (auto simp: find_one_def find_Some_iff)


lemma parent_parts_create_audit_log [simp]:
  "parent_parts (create_audit_log i ts u a et ei fc sp s) = parent_parts s"
  by (simp add: create_audit_log_def)


lemma audit_logs_recalculate_status [simp]:
  "audit_logs (recalculate_status i s) = audit_logs s"
  by (simp add: recalculate_status_def split: option.splits)



subsection \<open>The status rule\<close>



subsection \<open>Fetching a part\<close>

text \<open>
  Claim C9. For a caller with the supplier role, \<open>get_part\<close> answers with the same 404
  "Part not found" in a run where no part has the requested id and in a run where the id
  exists but belongs to other suppliers only; neither run changes the database.
\<close>

theorem C9_not_found_indistinguishable:
  assumes "u_role u = ''supplier''"
    and "\<forall>p \<in> set (parent_parts s1). p_id p \<noteq> part_id"
    and "\<exists>p \<in> set (parent_parts s2). p_id p = part_id"
    and "\<forall>p \<in> set (parent_parts s2). p_id p = part_id \<longrightarrow> p_supplier_id p \<noteq> u_id u"
  shows "get_part part_id u s1 = (Inl (HTTPException 404 ''Part not found''), s1)
       \<and> get_part part_id u s2 = (Inl (HTTPException 404 ''Part not found''), s2)
       \<and> fst (get_part part_id u s1) = fst (get_part part_id u s2)"
proof -
  have "find_one (part_query part_id u) (parent_parts s1) = None"
    using assms(1,2) by (simp add: find_one_None part_query_def)
  moreover have "find_one (part_query part_id u) (parent_parts s2) = None"
    using assms(1,4) by (auto simp: find_one_None part_query_def)
  ultimately show ?thesis by (simp add: get_part_def)
qed

theorem C9_not_found_indistinguishable_witness:
  "get_part ''p1'' ex_supplier (ex_db []) = (Inl (HTTPException 404 ''Part not found''), ex_db [])
   \<and> get_part ''p1'' ex_supplier (ex_db [ex_parent ''p1'' ''SKU-1'' ''s2'' 10 ''incomplete'' []])
       = (Inl (HTTPException 404 ''Part not found''),
          ex_db [ex_parent ''p1'' ''SKU-1'' ''s2'' 10 ''incomplete'' []])"
proof -
  have h1: "u_role ex_supplier = ''supplier''"
    by (simp add: ex_supplier_def)
  have h2: "\<forall>p \<in> set (parent_parts (ex_db [])). p_id p \<noteq> ''p1''"
    by (simp add: ex_db_def)
  have h3: "\<exists>p \<in> set (parent_parts (ex_db [ex_parent ''p1'' ''SKU-1'' ''s2'' 10 ''incomplete'' []])).
              p_id p = ''p1''"
    by (simp add: ex_db_def ex_parent_def)
  have h4: "\<forall>p \<in> set (parent_parts (ex_db [ex_parent ''p1'' ''SKU-1'' ''s2'' 10 ''incomplete'' []])).
              p_id p = ''p1'' \<longrightarrow> p_supplier_id p \<noteq> u_id ex_supplier"
    by (simp add: ex_db_def ex_parent_def ex_supplier_def)
  from C9_not_found_indistinguishable [OF h1 h2 h3 h4] show ?thesis
    by blast
qed

subsection \<open>Creating a part\<close>

text \<open>
  Claim C10. \<open>create_part\<close> raises the 400 duplicate error exactly when the caller already
  owns a parent part with the same sku; it raises no other error, and when it raises, the
  database it leaves is the one it found: no part inserted, no audit entry appended.
\<close>

theorem C10_create_part_duplicate:
  "(fst (create_part e part_data u s) = Inl (HTTPException 400 ''SKU already exists for this supplier''))
     = (\<exists>p \<in> set (parent_parts s). p_sku p = pc_sku part_data \<and> p_supplier_id p = u_id u)
   \<and> (\<forall>err. fst (create_part e part_data u s) = Inl err \<longrightarrow>
         err = HTTPException 400 ''SKU already exists for this supplier''
         \<and> snd (create_part e part_data u s) = s)"
proof (cases "find_one (\<lambda>p. p_sku p = pc_sku part_data \<and> p_supplier_id p = u_id u) (parent_parts s)")
  case None
  then show ?thesis
    using find_one_None [of "\<lambda>p. p_sku p = pc_sku part_data \<and> p_supplier_id p = u_id u" "parent_parts s"]
    by (simp add: create_part_def Let_def)
next
  case (Some a)
  then show ?thesis
    using find_one_Some [OF Some]
    by (auto simp add: create_part_def)
qed

theorem C10_create_part_duplicate_witness:
  "fst (create_part ex_env (ex_create ''SKU-1'') ex_supplier
          (ex_db [ex_parent ''p1'' ''SKU-1'' ''s1'' 10 ''incomplete'' []]))
     = Inl (HTTPException 400 ''SKU already exists for this supplier'')
   \<and> snd (create_part ex_env (ex_create ''SKU-1'') ex_supplier
          (ex_db [ex_parent ''p1'' ''SKU-1'' ''s1'' 10 ''incomplete'' []]))
     = ex_db [ex_parent ''p1'' ''SKU-1'' ''s1'' 10 ''incomplete'' []]"
proof -
  have h: "\<exists>p \<in> set (parent_parts (ex_db [ex_parent ''p1'' ''SKU-1'' ''s1'' 10 ''incomplete'' []])).
             p_sku p = pc_sku (ex_create ''SKU-1'') \<and> p_supplier_id p = u_id ex_supplier"
    by (simp add: ex_db_def ex_parent_def ex_create_def ex_supplier_def)
  from C10_create_part_duplicate [of ex_env "ex_create ''SKU-1''" ex_supplier
      "ex_db [ex_parent ''p1'' ''SKU-1'' ''s1'' 10 ''incomplete'' []]"] h
  show ?thesis by blast
qed

subsection \<open>Renaming a part\<close>

text \<open>
  Claim C7 (the code departs from it). \<open>create_part\<close> refuses a sku the caller already
  owns, \<open>update_part\<close> does not look: a supplier with parts \<open>SKU-1\<close> and \<open>SKU-2\<close> who renames
  the second to \<open>SKU-1\<close> gets a success answer and then owns two parts with one sku.
\<close>

theorem C7_update_part_duplicates_sku:
  "sku_unique ex_two_parts
   \<and> fst (update_part ex_env ''p2'' (ex_rename ''SKU-1'') ex_supplier ex_two_parts) = Inr ()
   \<and> map (\<lambda>p. (p_id p, p_supplier_id p, p_sku p))
        (parent_parts (snd (update_part ex_env ''p2'' (ex_rename ''SKU-1'') ex_supplier ex_two_parts)))
       = [(''p1'', ''s1'', ''SKU-1''), (''p2'', ''s1'', ''SKU-1'')]
   \<and> \<not> sku_unique (snd (update_part ex_env ''p2'' (ex_rename ''SKU-1'') ex_supplier ex_two_parts))"
  by code_simp

subsection \<open>Document versions\<close>

text \<open>
  Claim C8 (the code departs from it). An upload is never refused and the first re-upload
  of a name gets version 2, but the version is taken from the first stored document of
  that owner and name, so the third upload gets version 2 again instead of 3.
\<close>

theorem C8_third_upload_repeats_version:
  "map d_version (documents (ex_upload 0 (ex_db []))) = [1]
   \<and> map d_version (documents (ex_upload 1 (ex_upload 0 (ex_db [])))) = [1, 2]
   \<and> map d_version (documents (ex_upload 2 (ex_upload 1 (ex_upload 0 (ex_db []))))) = [1, 2, 2]
   \<and> map (\<lambda>d. (d_supplier_id d, d_original_name d))
        (documents (ex_upload 2 (ex_upload 1 (ex_upload 0 (ex_db [])))))
       = [(''s1'', ''cert.pdf''), (''s1'', ''cert.pdf''), (''s1'', ''cert.pdf'')]
   \<and> distinct (map d_id (documents (ex_upload 2 (ex_upload 1 (ex_upload 0 (ex_db []))))))"
  by code_simp

subsection \<open>Duplicating a child\<close>




subsection \<open>Audit entries of updates\<close>




subsection \<open>Completeness of stored children\<close>

lemma concat_children_update_one_same:
  "\<forall>p. p_child_parts (f p) = p_child_parts p \<Longrightarrow>
     concat (map p_child_parts (update_one q f ps)) = concat (map p_child_parts ps)"
  by (induction ps) auto

lemma all_children_recalculate_status [simp]:
  "all_children (recalculate_status i s) = all_children s"
  by (simp add: recalculate_status_def all_children_def concat_children_update_one_same
      split: option.splits)

lemma all_children_create_audit_log [simp]:
  "all_children (create_audit_log i ts u a et ei fc sp s) = all_children s"
  by (simp add: all_children_def)

lemma children_update_one_subset:
  "\<forall>p \<in> set ps. set (p_child_parts (f p)) \<subseteq> A \<Longrightarrow>
   set (concat (map p_child_parts ps)) \<subseteq> A \<Longrightarrow>
   set (concat (map p_child_parts (update_one q f ps))) \<subseteq> A"
  by (induction ps) auto

lemma add_child_part_children:
  assumes "c \<in> set (all_children (snd (add_child_part e part_id child_data u s)))"
  shows "c \<in> set (all_children s) \<or> complete_consistent c"
proof (cases "find_one (part_query part_id u) (parent_parts s)")
  case None
  with assms show ?thesis by (simp add: add_child_part_def)
next
  case (Some part)
  define new where "new =
     \<lparr>c_id = uuid4 e 0, c_identifier = cc_identifier child_data,
      c_name = cc_name child_data, c_description = cc_description child_data,
      c_country_of_origin = cc_country_of_origin child_data,
      c_weight_kg = cc_weight_kg child_data,
      c_weight_lbs = Some (cc_weight_kg child_data * 2.20462),
      c_value_usd = cc_value_usd child_data,
      c_aluminum_content_percent = cc_aluminum_content_percent child_data,
      c_steel_content_percent = cc_steel_content_percent child_data,
      c_has_russian_content = cc_has_russian_content child_data,
      c_russian_content_percent = cc_russian_content_percent child_data,
      c_russian_content_description = cc_russian_content_description child_data,
      c_manufacturing_method = cc_manufacturing_method child_data,
      c_document_ids = [],
      c_is_complete =
        (if cc_identifier child_data \<noteq> [] \<and> cc_name child_data \<noteq> []
            \<and> cc_country_of_origin child_data \<noteq> []
            \<and> cc_weight_kg child_data > 0 \<and> cc_value_usd child_data > 0
         then True else False),
      c_created_at = now e, c_updated_at = now e\<rparr>"
  have cons: "complete_consistent new"
    by (simp add: new_def complete_consistent_def)
  have st: "all_children (snd (add_child_part e part_id child_data u s)) =
            all_children (s\<lparr>parent_parts := update_one (by_id part_id)
                (\<lambda>p. p\<lparr>p_child_parts := p_child_parts p @ [new], p_updated_at := now e\<rparr>)
                (parent_parts s)\<rparr>)"
    by (simp add: add_child_part_def Some Let_def new_def)
  have sub: "set (concat (map p_child_parts (update_one (by_id part_id)
                (\<lambda>p. p\<lparr>p_child_parts := p_child_parts p @ [new], p_updated_at := now e\<rparr>)
                (parent_parts s)))) \<subseteq> insert new (set (all_children s))"
    by (rule children_update_one_subset) (auto simp: all_children_def)
  from assms have "c \<in> set (concat (map p_child_parts (update_one (by_id part_id)
                (\<lambda>p. p\<lparr>p_child_parts := p_child_parts p @ [new], p_updated_at := now e\<rparr>)
                (parent_parts s))))"
    unfolding st by (simp add: all_children_def)
  with sub have "c \<in> insert new (set (all_children s))" by blast
  with cons show ?thesis by blast
qed

lemma update_child_part_children:
  assumes "c \<in> set (all_children (snd (update_child_part e part_id child_id child_data u s)))"
  shows "c \<in> set (all_children s) \<or> complete_consistent c"
proof (cases "find_one (part_query part_id u) (parent_parts s)")
  case None
  with assms show ?thesis by (simp add: update_child_part_def)
next
  case part: (Some part)
  then have part_in: "part \<in> set (parent_parts s)"
    using find_one_Some by fastforce
  show ?thesis
  proof (cases "first_index (\<lambda>cp. c_id cp = child_id) (p_child_parts part)")
    case None
    with assms part show ?thesis by (simp add: update_child_part_def)
  next
    case idx: (Some i)
    define old where "old = p_child_parts part ! i"
    define updates where "updates = changed_items (child_get old) (child_update_items child_data)"
    show ?thesis
    proof (cases "changes_of (child_get old) updates = []")
      case True
      with assms part idx show ?thesis
        by (simp add: update_child_part_def Let_def old_def updates_def)
    next
      case False
      define cp3 where "cp3 =
        (if ''weight_kg'' \<in> set (map fc_field (changes_of (child_get old) updates))
         then (fold child_set updates old)
                \<lparr>c_weight_lbs := Some (c_weight_kg (fold child_set updates old) * 2.20462)\<rparr>
         else fold child_set updates old)\<lparr>c_updated_at := now e\<rparr>"
      define cp4 where "cp4 = cp3\<lparr>c_is_complete := check_complete cp3\<rparr>"
      have st: "all_children (snd (update_child_part e part_id child_id child_data u s)) =
             all_children (s\<lparr>parent_parts := update_one (by_id part_id)
                (\<lambda>p. p\<lparr>p_child_parts := (p_child_parts part)[i := cp4], p_updated_at := now e\<rparr>)
                (parent_parts s)\<rparr>)"
        using False part idx
        by (simp add: update_child_part_def Let_def old_def updates_def cp4_def cp3_def)
      have cons: "complete_consistent cp4"
        by (simp add: cp4_def complete_consistent_def check_complete_def)
      have sub: "set ((p_child_parts part)[i := cp4]) \<subseteq> insert cp4 (set (all_children s))"
        using part_in set_update_subset_insert [of "p_child_parts part" i cp4]
        by (auto simp: all_children_def)
      have sub': "set (concat (map p_child_parts (update_one (by_id part_id)
                (\<lambda>p. p\<lparr>p_child_parts := (p_child_parts part)[i := cp4], p_updated_at := now e\<rparr>)
                (parent_parts s)))) \<subseteq> insert cp4 (set (all_children s))"
        by (rule children_update_one_subset) (use sub in \<open>auto simp: all_children_def\<close>)
      from assms have "c \<in> set (concat (map p_child_parts (update_one (by_id part_id)
                (\<lambda>p. p\<lparr>p_child_parts := (p_child_parts part)[i := cp4], p_updated_at := now e\<rparr>)
                (parent_parts s))))"
        unfolding st by (simp add: all_children_def)
      with sub' have "c \<in> insert cp4 (set (all_children s))" by blast
      with cons show ?thesis by blast
    qed
  qed
qed

lemma duplicate_child_part_incomplete:
  "fst (duplicate_child_part e part_id child_id u s) = Inr new \<Longrightarrow> \<not> c_is_complete new"
  by (auto simp: duplicate_child_part_def Let_def split: option.splits)

end
